theory Spec2Isabelle
  imports Main "HOL-Library.Word" "HOL-Library.Log_Nat"
begin

section \<open>JavaScript values\<close>

text \<open>
  A JavaScript string is a sequence of 16-bit code units; \<open>js\<close> embeds an ASCII
  literal of the source text.
\<close>

type_synonym jsstring = "16 word list"

definition js :: "string \<Rightarrow> jsstring" where
  "js s = map of_char s"

text \<open>
  A Number is a double: \<open>Finite s m p\<close> is \<open>(-1)^s * m * 2^p\<close>, with \<open>2^52 \<le> m < 2^53\<close>
  for a normal number, \<open>p = -1074\<close> for a subnormal one and \<open>m = 0\<close>, \<open>p = 0\<close> for zero.
\<close>

datatype jsnumber = Finite bool nat int | Infinity bool | NaN

text \<open>
  The values that reach the two pages: \<open>undefined\<close> and JSON data (what the backend
  answers, what \<open>JSON.parse\<close> returns). An object is the list of its own properties
  in enumeration order.
\<close>

datatype jsval =
    JUndefined
  | JNull
  | JBool bool
  | JNum jsnumber
  | JStr jsstring
  | JArr "jsval list"
  | JObj "(jsstring \<times> jsval) list"

text \<open>
  What a \<open>catch\<close> clause can receive: an error object made by the engine
  (\<open>TypeError\<close> for a property read on \<open>undefined\<close> or \<open>null\<close>, \<open>SyntaxError\<close> from
  \<open>JSON.parse\<close>), or whatever value other code threw or rejected with.
\<close>

datatype thrown = TypeError | SyntaxError | Thrown jsval

fun nullish :: "jsval \<Rightarrow> bool" where
  "nullish JUndefined = True"
| "nullish JNull = True"
| "nullish _ = False"

text \<open>\<open>ToBoolean\<close>: the test made by \<open>if\<close>, \<open>?:\<close>, \<open>!\<close> and \<open>||\<close>.\<close>

fun ToBoolean :: "jsval \<Rightarrow> bool" where
  "ToBoolean JUndefined = False"
| "ToBoolean JNull = False"
| "ToBoolean (JBool b) = b"
| "ToBoolean (JNum n) = (case n of Finite s m p \<Rightarrow> m \<noteq> 0 | Infinity s \<Rightarrow> True | NaN \<Rightarrow> False)"
| "ToBoolean (JStr s) = (s \<noteq> [])"
| "ToBoolean (JArr xs) = True"
| "ToBoolean (JObj ps) = True"

text \<open>
  The property read \<open>v.p\<close>, for the names the pages read (\<open>user\<close>, \<open>first_name\<close>,
  \<open>response\<close>, \<open>data\<close>, \<open>detail\<close>). None of them is defined on a built-in prototype, so
  a missing property, and any of these properties of a primitive or an array, reads as
  \<open>undefined\<close>; the read on \<open>undefined\<close> or \<open>null\<close> throws a \<open>TypeError\<close>.
\<close>

fun get_prop :: "jsval \<Rightarrow> jsstring \<Rightarrow> thrown + jsval" where
  "get_prop JUndefined p = Inl TypeError"
| "get_prop JNull p = Inl TypeError"
| "get_prop (JObj ps) p = Inr (case map_of ps p of None \<Rightarrow> JUndefined | Some v \<Rightarrow> v)"
| "get_prop _ p = Inr JUndefined"

text \<open>The optional read \<open>v?.p\<close>: \<open>undefined\<close> when \<open>v\<close> is \<open>undefined\<close> or \<open>null\<close>.\<close>

definition get_prop_opt :: "jsval \<Rightarrow> jsstring \<Rightarrow> jsval" where
  "get_prop_opt v p =
     (if nullish v then JUndefined
      else case get_prop v p of Inl e \<Rightarrow> JUndefined | Inr x \<Rightarrow> x)"

subsection \<open>Decimal text and doubles\<close>

text \<open>
  \<open>round_half_even n d\<close> is the integer nearest to \<open>n / d\<close>, a tie going to the even
  one; \<open>scaled base a b k\<close> is the fraction \<open>a / b * base^k\<close>; \<open>floor_log base a b\<close> is
  the integer part of the logarithm of \<open>a / b\<close>, for positive \<open>a\<close> and \<open>b\<close>.
\<close>

definition round_half_even :: "nat \<Rightarrow> nat \<Rightarrow> nat" where
  "round_half_even n d =
     (let q = n div d; r = n mod d
      in if 2 * r < d then q else if d < 2 * r then q + 1 else if even q then q else q + 1)"

definition scaled :: "nat \<Rightarrow> nat \<Rightarrow> nat \<Rightarrow> int \<Rightarrow> nat \<times> nat" where
  "scaled base a b k = (if 0 \<le> k then (a * base ^ nat k, b) else (a, b * base ^ nat (- k)))"

definition floor_log :: "nat \<Rightarrow> nat \<Rightarrow> nat \<Rightarrow> int" where
  "floor_log base a b =
     (let k = int (floorlog base a) - int (floorlog base b);
          (n, d) = scaled base a b (- k)
      in if d \<le> n then k else k - 1)"

text \<open>
  The double denoted by the decimal \<open>(-1)^s * c * 10^e\<close> of a numeric literal:
  the nearest one, a tie going to the even significand; beyond the largest double
  it is an infinity, below half the smallest one it is zero.
\<close>

definition binary64 :: "bool \<Rightarrow> nat \<Rightarrow> int \<Rightarrow> jsnumber" where
  "binary64 s c e =
     (if c = 0 then Finite s 0 0
      else
        let (a, b) = scaled 10 c 1 e;
            p = max (floor_log 2 a b - 52) (- 1074);
            (n, d) = scaled 2 a b (- p);
            m = round_half_even n d
        in if m = 0 then Finite s 0 0
           else if m = 2 ^ 53 then (if 970 < p then Infinity s else Finite s (2 ^ 52) (p + 1))
           else if 971 < p then Infinity s
           else Finite s m p)"

text \<open>
  \<open>Number::toString\<close> prints the shortest decimal that denotes the same double, and
  of those the nearest. \<open>shortest_at m p e\<close> looks for it among the multiples of
  \<open>10^e\<close>; the search starts with one digit and ends at seventeen, which always
  identify a double.
\<close>

definition shortest_at :: "nat \<Rightarrow> int \<Rightarrow> int \<Rightarrow> (nat \<times> int) option" where
  "shortest_at m p e =
     (let (a, b) = scaled 2 m 1 p;
          (n, d) = scaled 10 a b (- e);
          lo = n div d;
          lo_ok = (binary64 False lo e = Finite False m p);
          hi_ok = (binary64 False (lo + 1) e = Finite False m p)
      in if lo_ok \<and> hi_ok then Some (round_half_even n d, e)
         else if lo_ok then Some (lo, e)
         else if hi_ok then Some (lo + 1, e)
         else None)"

fun shortest_search :: "nat \<Rightarrow> nat \<Rightarrow> int \<Rightarrow> int \<Rightarrow> nat \<times> int" where
  "shortest_search 0 m p e =
     (let (a, b) = scaled 2 m 1 p; (n, d) = scaled 10 a b (- e) in (round_half_even n d, e))"
| "shortest_search (Suc j) m p e =
     (case shortest_at m p e of
        Some r \<Rightarrow> r
      | None \<Rightarrow> shortest_search j m p (e - 1))"

definition shortest_decimal :: "nat \<Rightarrow> int \<Rightarrow> nat \<times> int" where
  "shortest_decimal m p =
     (let (a, b) = scaled 2 m 1 p in shortest_search 16 m p (floor_log 10 a b))"

fun digits_of :: "nat \<Rightarrow> nat list" where
  "digits_of n = (if n < 10 then [n] else digits_of (n div 10) @ [n mod 10])"

declare digits_of.simps [simp del]

definition digit_char :: "nat \<Rightarrow> 16 word" where
  "digit_char d = of_nat (48 + d)"

definition decimal_text :: "nat \<Rightarrow> jsstring" where
  "decimal_text n = map digit_char (digits_of n)"

text \<open>
  The layout of \<open>Number::toString\<close> for the digits \<open>ds\<close> (\<open>k\<close> of them, no trailing
  zero) of a number in \<open>[10^(n-1), 10^n)\<close>: plain digits up to \<open>10^21\<close>, a leading
  \<open>0.\<close> down to \<open>10^-7\<close>, the exponent form otherwise.
\<close>

definition format_decimal :: "nat \<times> int \<Rightarrow> jsstring" where
  "format_decimal ce =
     (let all = digits_of (fst ce);
          ds = rev (dropWhile (\<lambda>d. d = 0) (rev all));
          k = int (length ds);
          n = k + (snd ce + (int (length all) - k));
          text = map digit_char ds
      in if k \<le> n \<and> n \<le> 21 then text @ replicate (nat (n - k)) 0x30
         else if 0 < n \<and> n \<le> 21 then take (nat n) text @ js ''.'' @ drop (nat n) text
         else if - 6 < n \<and> n \<le> 0 then js ''0.'' @ replicate (nat (- n)) 0x30 @ text
         else
           let ex = (if n - 1 < 0 then js ''-'' else js ''+'') @ decimal_text (nat \<bar>n - 1\<bar>)
           in if k = 1 then text @ js ''e'' @ ex
              else take 1 text @ js ''.'' @ drop 1 text @ js ''e'' @ ex)"

fun Number_toString :: "jsnumber \<Rightarrow> jsstring" where
  "Number_toString NaN = js ''NaN''"
| "Number_toString (Infinity s) = (if s then js ''-Infinity'' else js ''Infinity'')"
| "Number_toString (Finite s m p) =
     (if m = 0 then js ''0''
      else (if s then js ''-'' else []) @ format_decimal (shortest_decimal m p))"

subsection \<open>ToString\<close>

text \<open>
  The conversion a template literal applies to each substitution. A primitive always
  has a string. An object is converted by calling its \<open>toString\<close> and then its
  \<open>valueOf\<close>: a plain object without an own \<open>toString\<close> property inherits the one
  that answers \<open>[object Object]\<close>; with an own \<open>toString\<close> property, which in JSON
  data is never a function, only the inherited \<open>valueOf\<close> is left, it returns the
  object itself, and the conversion throws a \<open>TypeError\<close>. An array joins the strings
  of its elements with commas, \<open>undefined\<close> and \<open>null\<close> elements counting as empty, and
  throws where an element does.
\<close>

definition join :: "jsstring \<Rightarrow> jsstring list \<Rightarrow> jsstring" where
  "join sep parts = (case parts of [] \<Rightarrow> [] | p # ps \<Rightarrow> p @ concat (map (\<lambda>q. sep @ q) ps))"

fun collect :: "(thrown + 'a) list \<Rightarrow> thrown + 'a list" where
  "collect [] = Inr []"
| "collect (Inl e # rs) = Inl e"
| "collect (Inr x # rs) = (case collect rs of Inl e \<Rightarrow> Inl e | Inr xs \<Rightarrow> Inr (x # xs))"

fun ToString :: "jsval \<Rightarrow> thrown + jsstring" where
  "ToString JUndefined = Inr (js ''undefined'')"
| "ToString JNull = Inr (js ''null'')"
| "ToString (JBool b) = Inr (if b then js ''true'' else js ''false'')"
| "ToString (JNum n) = Inr (Number_toString n)"
| "ToString (JStr s) = Inr s"
| "ToString (JArr xs) =
     (case collect (map (\<lambda>x. if nullish x then Inr [] else ToString x) xs) of
        Inl e \<Rightarrow> Inl e
      | Inr parts \<Rightarrow> Inr (join (js '','') parts))"
| "ToString (JObj ps) =
     (if map_of ps (js ''toString'') \<noteq> None then Inl TypeError
      else Inr (js ''[object Object]''))"

section \<open>JSON\<close>

subsection \<open>JSON.stringify\<close>

text \<open>
  A string is quoted with its control characters and lone surrogates escaped.
  \<open>SerializeJSONProperty\<close> is \<open>None\<close> where \<open>JSON.stringify\<close> returns \<open>undefined\<close>; an
  \<open>undefined\<close> array element is written \<open>null\<close>, an \<open>undefined\<close> property is left out,
  and a Number that is not finite is written \<open>null\<close>.
\<close>

definition hex_char :: "nat \<Rightarrow> 16 word" where
  "hex_char d = of_nat (if d < 10 then 48 + d else 87 + d)"

definition unicode_escape :: "16 word \<Rightarrow> jsstring" where
  "unicode_escape c =
     (let n = unat c
      in [0x5C, 0x75] @ map hex_char [n div 4096, n div 256 mod 16, n div 16 mod 16, n mod 16])"

definition is_high_surrogate :: "16 word \<Rightarrow> bool" where
  "is_high_surrogate c = (0xD800 \<le> c \<and> c \<le> 0xDBFF)"

definition is_low_surrogate :: "16 word \<Rightarrow> bool" where
  "is_low_surrogate c = (0xDC00 \<le> c \<and> c \<le> 0xDFFF)"

definition quote_unit :: "16 word \<Rightarrow> jsstring" where
  "quote_unit c =
     (if c = 0x08 then [0x5C, 0x62]
      else if c = 0x09 then [0x5C, 0x74]
      else if c = 0x0A then [0x5C, 0x6E]
      else if c = 0x0C then [0x5C, 0x66]
      else if c = 0x0D then [0x5C, 0x72]
      else if c = 0x22 then [0x5C, 0x22]
      else if c = 0x5C then [0x5C, 0x5C]
      else if c < 0x20 \<or> is_high_surrogate c \<or> is_low_surrogate c then unicode_escape c
      else [c])"

fun quote_units :: "jsstring \<Rightarrow> jsstring" where
  "quote_units [] = []"
| "quote_units [c] = quote_unit c"
| "quote_units (c # d # cs) =
     (if is_high_surrogate c \<and> is_low_surrogate d then c # d # quote_units cs
      else quote_unit c @ quote_units (d # cs))"

definition QuoteJSONString :: "jsstring \<Rightarrow> jsstring" where
  "QuoteJSONString s = [0x22] @ quote_units s @ [0x22]"

fun SerializeJSONProperty :: "jsval \<Rightarrow> jsstring option" where
  "SerializeJSONProperty JUndefined = None"
| "SerializeJSONProperty JNull = Some (js ''null'')"
| "SerializeJSONProperty (JBool b) = Some (if b then js ''true'' else js ''false'')"
| "SerializeJSONProperty (JNum n) =
     Some (case n of Finite s m p \<Rightarrow> Number_toString n | _ \<Rightarrow> js ''null'')"
| "SerializeJSONProperty (JStr s) = Some (QuoteJSONString s)"
| "SerializeJSONProperty (JArr xs) =
     Some (js ''['' @
       join (js '','')
         (map (\<lambda>x. case SerializeJSONProperty x of None \<Rightarrow> js ''null'' | Some t \<Rightarrow> t) xs) @
       js '']'')"
| "SerializeJSONProperty (JObj ps) =
     Some (js ''{'' @
       join (js '','')
         (concat (map (\<lambda>kv. case SerializeJSONProperty (snd kv) of
                                None \<Rightarrow> []
                              | Some t \<Rightarrow> [QuoteJSONString (fst kv) @ js '':'' @ t]) ps)) @
       js ''}'')"


definition JSON_stringify :: "jsval \<Rightarrow> jsstring option" where
  "JSON_stringify v = SerializeJSONProperty v"

subsection \<open>JSON.parse\<close>

text \<open>
  The text is cut into tokens by a scanner that reads one code unit at a time, and the
  tokens are assembled by a machine with a stack of the arrays and objects under
  construction. Any text outside the JSON grammar is a \<open>SyntaxError\<close>.
\<close>

definition is_digit :: "16 word \<Rightarrow> bool" where
  "is_digit c = (0x30 \<le> c \<and> c \<le> 0x39)"

definition digits_value :: "jsstring \<Rightarrow> nat" where
  "digits_value s = foldl (\<lambda>n c. 10 * n + (unat c - 48)) 0 s"

definition hex_value :: "16 word \<Rightarrow> nat option" where
  "hex_value c =
     (if is_digit c then Some (unat c - 48)
      else if 0x41 \<le> c \<and> c \<le> 0x46 then Some (unat c - 55)
      else if 0x61 \<le> c \<and> c \<le> 0x66 then Some (unat c - 87)
      else None)"

text \<open>
  A numeric literal: an optional minus, then \<open>0\<close> or digits not starting with \<open>0\<close>,
  then an optional fraction (a dot and digits), then an optional exponent (\<open>e\<close> or
  \<open>E\<close>, an optional sign, digits).
\<close>

definition split_sign :: "jsstring \<Rightarrow> bool \<Rightarrow> bool \<times> jsstring" where
  "split_sign s allow_plus =
     (case s of
        [] \<Rightarrow> (False, s)
      | c # r \<Rightarrow> if c = 0x2D then (True, r) else if allow_plus \<and> c = 0x2B then (False, r) else (False, s))"

definition parse_exponent :: "jsstring \<Rightarrow> int option" where
  "parse_exponent s =
     (case s of
        [] \<Rightarrow> Some 0
      | c # r \<Rightarrow>
          if c = 0x65 \<or> c = 0x45 then
            (let (neg, ds) = split_sign r True
             in if ds \<noteq> [] \<and> list_all is_digit ds
                then Some (if neg then - int (digits_value ds) else int (digits_value ds))
                else None)
          else None)"

definition parse_number :: "jsstring \<Rightarrow> jsnumber option" where
  "parse_number s =
     (let (neg, s1) = split_sign s False;
          ip = takeWhile is_digit s1;
          s2 = dropWhile is_digit s1;
          dot = (s2 \<noteq> [] \<and> hd s2 = 0x2E);
          fp = (if dot then takeWhile is_digit (tl s2) else []);
          s3 = (if dot then dropWhile is_digit (tl s2) else s2)
      in if ip = [] \<or> (hd ip = 0x30 \<and> length ip \<noteq> 1) \<or> (dot \<and> fp = []) then None
         else case parse_exponent s3 of
                None \<Rightarrow> None
              | Some ex \<Rightarrow> Some (binary64 neg (digits_value (ip @ fp)) (ex - int (length fp))))"

datatype token =
    LBrace | RBrace | LBracket | RBracket | Colon | Comma
  | StringToken jsstring
  | Scalar jsval

datatype lexer =
    Idle
  | InWord jsstring jsval
  | InString jsstring
  | InEscape jsstring
  | InHex jsstring "nat list"
  | InNumber jsstring

definition lex_idle :: "16 word \<Rightarrow> (token list \<times> lexer) option" where
  "lex_idle c =
     (if c = 0x09 \<or> c = 0x0A \<or> c = 0x0D \<or> c = 0x20 then Some ([], Idle)
      else if c = 0x7B then Some ([LBrace], Idle)
      else if c = 0x7D then Some ([RBrace], Idle)
      else if c = 0x5B then Some ([LBracket], Idle)
      else if c = 0x5D then Some ([RBracket], Idle)
      else if c = 0x3A then Some ([Colon], Idle)
      else if c = 0x2C then Some ([Comma], Idle)
      else if c = 0x22 then Some ([], InString [])
      else if c = 0x2D \<or> is_digit c then Some ([], InNumber [c])
      else if c = 0x74 then Some ([], InWord (js ''rue'') (JBool True))
      else if c = 0x66 then Some ([], InWord (js ''alse'') (JBool False))
      else if c = 0x6E then Some ([], InWord (js ''ull'') JNull)
      else None)"

definition unescape :: "16 word \<Rightarrow> 16 word option" where
  "unescape c =
     (if c = 0x22 \<or> c = 0x5C \<or> c = 0x2F then Some c
      else if c = 0x62 then Some 0x08
      else if c = 0x66 then Some 0x0C
      else if c = 0x6E then Some 0x0A
      else if c = 0x72 then Some 0x0D
      else if c = 0x74 then Some 0x09
      else None)"

definition is_number_char :: "16 word \<Rightarrow> bool" where
  "is_number_char c = (is_digit c \<or> c = 0x2E \<or> c = 0x65 \<or> c = 0x45 \<or> c = 0x2B \<or> c = 0x2D)"

fun lex_step :: "lexer \<Rightarrow> 16 word \<Rightarrow> (token list \<times> lexer) option" where
  "lex_step Idle c = lex_idle c"
| "lex_step (InWord rest v) c =
     (case rest of
        [] \<Rightarrow> None
      | x # xs \<Rightarrow> if c \<noteq> x then None
                 else if xs = [] then Some ([Scalar v], Idle)
                 else Some ([], InWord xs v))"
| "lex_step (InString acc) c =
     (if c = 0x22 then Some ([StringToken acc], Idle)
      else if c = 0x5C then Some ([], InEscape acc)
      else if c < 0x20 then None
      else Some ([], InString (acc @ [c])))"
| "lex_step (InEscape acc) c =
     (if c = 0x75 then Some ([], InHex acc [])
      else case unescape c of
             None \<Rightarrow> None
           | Some u \<Rightarrow> Some ([], InString (acc @ [u])))"
| "lex_step (InHex acc hs) c =
     (case hex_value c of
        None \<Rightarrow> None
      | Some h \<Rightarrow>
          if length hs < 3 then Some ([], InHex acc (hs @ [h]))
          else Some ([], InString (acc @ [of_nat (foldl (\<lambda>n d. 16 * n + d) 0 (hs @ [h]))])))"
| "lex_step (InNumber acc) c =
     (if is_number_char c then Some ([], InNumber (acc @ [c]))
      else case parse_number acc of
             None \<Rightarrow> None
           | Some n \<Rightarrow>
               (case lex_idle c of
                  None \<Rightarrow> None
                | Some (ts, st) \<Rightarrow> Some (Scalar (JNum n) # ts, st)))"

fun lex :: "lexer \<Rightarrow> jsstring \<Rightarrow> token list option" where
  "lex st [] =
     (case st of
        Idle \<Rightarrow> Some []
      | InNumber acc \<Rightarrow> map_option (\<lambda>n. [Scalar (JNum n)]) (parse_number acc)
      | _ \<Rightarrow> None)"
| "lex st (c # cs) =
     (case lex_step st c of
        None \<Rightarrow> None
      | Some (ts, st') \<Rightarrow> map_option (\<lambda>rest. ts @ rest) (lex st' cs))"

text \<open>
  A property whose name is an array index (a canonical decimal below \<open>2^32 - 1\<close>) is
  enumerated before the other properties, in ascending order; the others follow in
  the order of their creation. A repeated name keeps its place and takes the later
  value.
\<close>

definition array_index :: "jsstring \<Rightarrow> nat option" where
  "array_index k =
     (if k \<noteq> [] \<and> list_all is_digit k \<and> (hd k \<noteq> 0x30 \<or> length k = 1)
         \<and> digits_value k < 2 ^ 32 - 1
      then Some (digits_value k) else None)"

fun insert_index :: "nat \<Rightarrow> jsstring \<times> jsval \<Rightarrow> (jsstring \<times> jsval) list \<Rightarrow> (jsstring \<times> jsval) list" where
  "insert_index i kv [] = [kv]"
| "insert_index i kv (p # ps) =
     (case array_index (fst p) of
        None \<Rightarrow> kv # p # ps
      | Some j \<Rightarrow> if j < i then p # insert_index i kv ps else kv # p # ps)"

definition CreateDataProperty :: "(jsstring \<times> jsval) list \<Rightarrow> jsstring \<Rightarrow> jsval \<Rightarrow> (jsstring \<times> jsval) list" where
  "CreateDataProperty ps k v =
     (if map_of ps k \<noteq> None then map (\<lambda>p. if fst p = k then (k, v) else p) ps
      else case array_index k of
             None \<Rightarrow> ps @ [(k, v)]
           | Some i \<Rightarrow> insert_index i (k, v) ps)"

datatype frame = ArrayFrame "jsval list" | ObjectFrame "(jsstring \<times> jsval) list" jsstring

datatype expect =
    Value | ValueOrClose | KeyOrClose | Key | ColonAfter jsstring | CommaOrClose | End jsval

definition complete :: "jsval \<Rightarrow> frame list \<Rightarrow> (frame list \<times> expect) option" where
  "complete v stack =
     (case stack of
        [] \<Rightarrow> Some ([], End v)
      | ArrayFrame xs # st \<Rightarrow> Some (ArrayFrame (xs @ [v]) # st, CommaOrClose)
      | ObjectFrame ps k # st \<Rightarrow> Some (ObjectFrame (CreateDataProperty ps k v) [] # st, CommaOrClose))"

definition start_value :: "token \<Rightarrow> frame list \<Rightarrow> (frame list \<times> expect) option" where
  "start_value tk stack =
     (case tk of
        Scalar v \<Rightarrow> complete v stack
      | StringToken s \<Rightarrow> complete (JStr s) stack
      | LBracket \<Rightarrow> Some (ArrayFrame [] # stack, ValueOrClose)
      | LBrace \<Rightarrow> Some (ObjectFrame [] [] # stack, KeyOrClose)
      | _ \<Rightarrow> None)"

definition close_frame :: "token \<Rightarrow> frame list \<Rightarrow> (frame list \<times> expect) option" where
  "close_frame tk stack =
     (case (tk, stack) of
        (RBracket, ArrayFrame xs # st) \<Rightarrow> complete (JArr xs) st
      | (RBrace, ObjectFrame ps k # st) \<Rightarrow> complete (JObj ps) st
      | _ \<Rightarrow> None)"

definition start_key :: "token \<Rightarrow> frame list \<Rightarrow> (frame list \<times> expect) option" where
  "start_key tk stack =
     (case tk of StringToken k \<Rightarrow> Some (stack, ColonAfter k) | _ \<Rightarrow> None)"

fun parse_step :: "expect \<Rightarrow> token \<Rightarrow> frame list \<Rightarrow> (frame list \<times> expect) option" where
  "parse_step Value tk stack = start_value tk stack"
| "parse_step ValueOrClose tk stack =
     (if tk = RBracket then close_frame tk stack else start_value tk stack)"
| "parse_step KeyOrClose tk stack =
     (if tk = RBrace then close_frame tk stack else start_key tk stack)"
| "parse_step Key tk stack = start_key tk stack"
| "parse_step (ColonAfter k) tk stack =
     (case (tk, stack) of
        (Colon, ObjectFrame ps k' # st) \<Rightarrow> Some (ObjectFrame ps k # st, Value)
      | _ \<Rightarrow> None)"
| "parse_step CommaOrClose tk stack =
     (case (tk, stack) of
        (Comma, ArrayFrame xs # st) \<Rightarrow> Some (stack, Value)
      | (Comma, ObjectFrame ps k # st) \<Rightarrow> Some (stack, Key)
      | _ \<Rightarrow> close_frame tk stack)"
| "parse_step (End v) tk stack = None"

fun parse_tokens :: "expect \<Rightarrow> frame list \<Rightarrow> token list \<Rightarrow> jsval option" where
  "parse_tokens ex stack [] = (case ex of End v \<Rightarrow> Some v | _ \<Rightarrow> None)"
| "parse_tokens ex stack (tk # tks) =
     (case parse_step ex tk stack of
        None \<Rightarrow> None
      | Some (stack', ex') \<Rightarrow> parse_tokens ex' stack' tks)"

definition JSON_parse :: "jsstring \<Rightarrow> thrown + jsval" where
  "JSON_parse text =
     (case lex Idle text of
        None \<Rightarrow> Inl SyntaxError
      | Some tks \<Rightarrow>
          (case parse_tokens Value [] tks of
             None \<Rightarrow> Inl SyntaxError
           | Some v \<Rightarrow> Inr v))"


section \<open>The login page (login.jsx)\<close>

text \<open>
  \<open>authService\<close> and the translation function \<open>t\<close> are imported from outside the two
  source files, so the page is modelled for any behaviour of theirs:
  \<open>authService_login\<close> gives, for the submitted form, how the promise of
  \<open>authService.login(formData)\<close> settles (or that it never does),
  \<open>authService_isGuardian\<close> is what \<open>authService.isGuardian()\<close> returns, and \<open>i18n_t\<close>
  is \<open>t\<close>. The calls into react-toastify, react-router and React's state setter return
  normally and are recorded as effects.
\<close>

record formData =
  email :: jsstring
  password :: jsstring

datatype outcome = Fulfilled jsval | Rejected thrown | Pending

record services =
  i18n_t :: "jsstring \<Rightarrow> jsstring"
  authService_login :: "formData \<Rightarrow> outcome"
  authService_isGuardian :: bool

datatype effect =
    preventDefault
  | setLoading bool
  | login_request formData
  | toast_success jsstring
  | toast_error jsval
  | navigate jsstring

text \<open>
  How the promise returned by the asynchronous handler ends: fulfilled, rejected with
  what escaped the handler, or never settled because the handler is still waiting.
\<close>

datatype completion = Completed | Failed thrown | Suspended

text \<open>
  One submission: the effects of the synchronous part, up to the \<open>await\<close>;
  the effects after the awaited promise has settled; and how the run ends.
\<close>

record submission =
  before_await :: "effect list"
  after_await :: "effect list"
  completion :: completion

definition trace :: "submission \<Rightarrow> effect list" where
  "trace r = before_await r @ after_await r"

text \<open>
  The template literal of line 23, the message of the success toast. It throws when
  the first name has no string.
\<close>

definition welcome_text :: "services \<Rightarrow> jsval \<Rightarrow> thrown + jsstring" where
  "welcome_text sv first_name =
     (case ToString first_name of
        Inl e \<Rightarrow> Inl e
      | Inr name \<Rightarrow> Inr (i18n_t sv (js ''auth.welcomeBack'') @ js '', '' @ name @ js ''!''))"

text \<open>
  The \<open>try\<close> block after the \<open>await\<close>, lines 23 to 29: its effects, and what it
  threw if it did.
\<close>

definition try_block :: "services \<Rightarrow> jsval \<Rightarrow> effect list \<times> thrown option" where
  "try_block sv response =
     (case get_prop response (js ''user'') of
        Inl e \<Rightarrow> ([], Some e)
      | Inr user \<Rightarrow>
          (case get_prop user (js ''first_name'') of
             Inl e \<Rightarrow> ([], Some e)
           | Inr first_name \<Rightarrow>
               (case welcome_text sv first_name of
                  Inl e \<Rightarrow> ([], Some e)
                | Inr message \<Rightarrow>
                    ([toast_success message,
                      if authService_isGuardian sv then navigate (js ''/guardian'')
                      else navigate (js ''/user'')],
                     None))))"

text \<open>
  \<open>error.response\<close>, the one read of the \<open>catch\<close> clause that is not optional. An
  error object made by the engine has no such property.
\<close>

fun error_response :: "thrown \<Rightarrow> thrown + jsval" where
  "error_response (Thrown v) = get_prop v (js ''response'')"
| "error_response TypeError = Inr JUndefined"
| "error_response SyntaxError = Inr JUndefined"

text \<open>
  \<open>response?.data?.detail || 'Login failed'\<close>, the argument of \<open>toast.error\<close>, from
  the value of \<open>error.response\<close>.
\<close>

definition notification :: "jsval \<Rightarrow> jsval" where
  "notification response =
     (let detail = get_prop_opt (get_prop_opt response (js ''data'')) (js ''detail'')
      in if ToBoolean detail then detail else JStr (js ''Login failed''))"

text \<open>The \<open>catch\<close> clause, line 31.\<close>

definition catch_block :: "thrown \<Rightarrow> effect list \<times> thrown option" where
  "catch_block error =
     (case error_response error of
        Inl e \<Rightarrow> ([], Some e)
      | Inr response \<Rightarrow> ([toast_error (notification response)], None))"

text \<open>
  The statement \<open>try ... catch ... finally\<close> once the awaited promise has settled,
  with the rejection (\<open>Inl\<close>) or the response (\<open>Inr\<close>): a rejection enters the
  \<open>catch\<close> clause at once, what the \<open>try\<close> block throws enters it too, what the
  \<open>catch\<close> clause throws escapes, and \<open>finally\<close> runs in every case.
\<close>

definition try_catch_finally :: "services \<Rightarrow> thrown + jsval \<Rightarrow> effect list \<times> completion" where
  "try_catch_finally sv awaited =
     (let (tried, raised) =
            (case awaited of
               Inr response \<Rightarrow> try_block sv response
             | Inl error \<Rightarrow> ([], Some error));
          (caught, escaped) =
            (case raised of
               None \<Rightarrow> ([], None)
             | Some error \<Rightarrow> catch_block error)
      in (tried @ caught @ [setLoading False],
          case escaped of None \<Rightarrow> Completed | Some e \<Rightarrow> Failed e))"

text \<open>\<open>handleSubmit\<close>, lines 17 to 35.\<close>

definition handleSubmit :: "services \<Rightarrow> formData \<Rightarrow> submission" where
  "handleSubmit sv formData =
     (let before = [preventDefault, setLoading True, login_request formData]
      in case authService_login sv formData of
           Pending \<Rightarrow> \<lparr>before_await = before, after_await = [], completion = Suspended\<rparr>
         | Fulfilled response \<Rightarrow>
             \<lparr>before_await = before,
              after_await = fst (try_catch_finally sv (Inr response)),
              completion = snd (try_catch_finally sv (Inr response))\<rparr>
         | Rejected error \<Rightarrow>
             \<lparr>before_await = before,
              after_await = fst (try_catch_finally sv (Inl error)),
              completion = snd (try_catch_finally sv (Inl error))\<rparr>)"

text \<open>
  The \<open>loading\<close> state (line 15) after a list of effects, from its value before them;
  the submit button is disabled while it is true (line 97).
\<close>

fun loading_after :: "bool \<Rightarrow> effect list \<Rightarrow> bool" where
  "loading_after loading [] = loading"
| "loading_after loading (setLoading b # es) = loading_after b es"
| "loading_after loading (e # es) = loading_after loading es"

text \<open>Whether a response carries a user: neither it nor its \<open>user\<close> is \<open>undefined\<close> or \<open>null\<close>.\<close>

definition carries_user :: "jsval \<Rightarrow> bool" where
  "carries_user response = (\<not> nullish (get_prop_opt response (js ''user'')))"

definition first_name_of :: "jsval \<Rightarrow> jsval" where
  "first_name_of response = get_prop_opt (get_prop_opt response (js ''user'')) (js ''first_name'')"

text \<open>
  The detail message of a rejection: \<open>error.response?.data?.detail\<close>, which is
  \<open>undefined\<close> when a link of the chain is missing.
\<close>

definition detail_of :: "thrown \<Rightarrow> jsval" where
  "detail_of error =
     (case error_response error of
        Inl e \<Rightarrow> JUndefined
      | Inr response \<Rightarrow> get_prop_opt (get_prop_opt response (js ''data'')) (js ''detail''))"

fun is_navigate :: "effect \<Rightarrow> bool" where
  "is_navigate (navigate path) = True"
| "is_navigate _ = False"

fun is_toast :: "effect \<Rightarrow> bool" where
  "is_toast (toast_success m) = True"
| "is_toast (toast_error m) = True"
| "is_toast _ = False"

fun is_toast_error :: "effect \<Rightarrow> bool" where
  "is_toast_error (toast_error m) = True"
| "is_toast_error _ = False"

fun is_login_request :: "effect \<Rightarrow> bool" where
  "is_login_request (login_request fd) = True"
| "is_login_request _ = False"

section \<open>The application shell (App, in guardianhome.jsx)\<close>

subsection \<open>Theme\<close>

text \<open>
  What the theme code touches of the browser: the storage, a partial map from keys to
  strings, and the class list of the document element.
\<close>

record browser =
  localStorage :: "jsstring \<rightharpoonup> jsstring"
  classList :: "jsstring list"

text \<open>
  The initializer of the \<open>darkMode\<close> state, lines 55 to 58. \<open>getItem\<close> is \<open>null\<close> for a
  missing key; \<open>null\<close> and the empty string are the falsy values of \<open>saved\<close>.
\<close>

definition initial_darkMode :: "browser \<Rightarrow> thrown + jsval" where
  "initial_darkMode b =
     (case localStorage b (js ''darkMode'') of
        None \<Rightarrow> Inr (JBool True)
      | Some saved \<Rightarrow> if saved \<noteq> [] then JSON_parse saved else Inr (JBool True))"

text \<open>
  The effect of lines 60 to 67, run after a render with a new \<open>darkMode\<close>. \<open>setItem\<close>
  stores the string of its argument, which is \<open>undefined\<close> when \<open>JSON.stringify\<close>
  returns \<open>undefined\<close>.
\<close>

definition setItem :: "jsstring \<Rightarrow> jsstring option \<Rightarrow> browser \<Rightarrow> browser" where
  "setItem key text b =
     b\<lparr>localStorage := (localStorage b)
          (key \<mapsto> (case text of None \<Rightarrow> js ''undefined'' | Some s \<Rightarrow> s))\<rparr>"

definition classList_add :: "jsstring \<Rightarrow> browser \<Rightarrow> browser" where
  "classList_add c b = (if c \<in> set (classList b) then b else b\<lparr>classList := classList b @ [c]\<rparr>)"

definition classList_remove :: "jsstring \<Rightarrow> browser \<Rightarrow> browser" where
  "classList_remove c b = b\<lparr>classList := removeAll c (classList b)\<rparr>"

definition darkMode_effect :: "jsval \<Rightarrow> browser \<Rightarrow> browser" where
  "darkMode_effect darkMode b =
     (let b' = setItem (js ''darkMode'') (JSON_stringify darkMode) b
      in if ToBoolean darkMode then classList_add (js ''dark'') b'
         else classList_remove (js ''dark'') b')"

text \<open>\<open>toggleTheme\<close>, line 69: the next value of the state.\<close>

definition toggleTheme :: "jsval \<Rightarrow> jsval" where
  "toggleTheme darkMode = JBool (\<not> ToBoolean darkMode)"

text \<open>
  A reload keeps the storage and starts from a fresh document.
\<close>

definition reload :: "browser \<Rightarrow> browser" where
  "reload b = b\<lparr>classList := []\<rparr>"

definition is_boolean :: "jsval \<Rightarrow> bool" where
  "is_boolean v = (case v of JBool b \<Rightarrow> True | _ \<Rightarrow> False)"

definition is_boolean_result :: "thrown + jsval \<Rightarrow> bool" where
  "is_boolean_result r = (case r of Inl e \<Rightarrow> False | Inr v \<Rightarrow> is_boolean v)"

text \<open>
  The App over time. It mounts by running the initializer and then the effect; an
  initializer that throws leaves nothing rendered. A toggle sets the state to
  \<open>!darkMode\<close>, which differs from \<open>darkMode\<close>, so the effect runs again; a reload
  mounts anew on the storage as it is.
\<close>

record app =
  darkMode :: jsval
  window :: browser

datatype action = Toggle | Reload

definition mount :: "browser \<Rightarrow> thrown + app" where
  "mount b =
     (case initial_darkMode b of
        Inl e \<Rightarrow> Inl e
      | Inr d \<Rightarrow> Inr \<lparr>darkMode = d, window = darkMode_effect d b\<rparr>)"

fun act :: "app \<Rightarrow> action \<Rightarrow> thrown + app" where
  "act s Toggle =
     Inr \<lparr>darkMode = toggleTheme (darkMode s),
          window = darkMode_effect (toggleTheme (darkMode s)) (window s)\<rparr>"
| "act s Reload = mount (reload (window s))"

fun run :: "thrown + app \<Rightarrow> action list \<Rightarrow> thrown + app" where
  "run r [] = r"
| "run (Inl e) (a # as) = Inl e"
| "run (Inr s) (a # as) = run (act s a) as"

text \<open>
  The state in which the flag is the boolean \<open>v\<close> and the storage holds its JSON text.
\<close>

definition in_step :: "app \<Rightarrow> bool \<Rightarrow> bool" where
  "in_step s v =
     (darkMode s = JBool v
      \<and> localStorage (window s) (js ''darkMode'') = Some (js (if v then ''true'' else ''false'')))"

subsection \<open>Routes\<close>

text \<open>
  What a route renders: one of the four pages, or the redirecting element
  \<open><Navigate to=... />\<close>.
\<close>

datatype page = Login | Register | GuardianHome | UserHome

datatype element = Page page | Navigate jsstring

text \<open>
  \<open>PrivateRoute\<close>, lines 71 to 73, given what \<open>authService.isAuthenticated()\<close> returns
  at this render.
\<close>

definition PrivateRoute :: "bool \<Rightarrow> element \<Rightarrow> element" where
  "PrivateRoute isAuthenticated children =
     (if isAuthenticated then children else Navigate (js ''/login''))"

text \<open>The route table of lines 79 to 99, and the element of a declared path.\<close>

definition Routes :: "bool \<Rightarrow> (jsstring \<times> element) list" where
  "Routes isAuthenticated =
     [(js ''/login'', Page Login),
      (js ''/register'', Page Register),
      (js ''/guardian'', PrivateRoute isAuthenticated (Page GuardianHome)),
      (js ''/user'', PrivateRoute isAuthenticated (Page UserHome)),
      (js ''/'', Navigate (js ''/login''))]"

definition route_element :: "bool \<Rightarrow> jsstring \<Rightarrow> element option" where
  "route_element isAuthenticated path = map_of (Routes isAuthenticated) path"


section \<open>Sample inputs\<close>

text \<open>
  A submitted form, services that settle the login in a given way (with a translation
  function that returns its key, as i18next does for a key it has no text for), and
  some answers of the backend.
\<close>

definition sample_form :: formData where
  "sample_form = \<lparr>email = js ''asha@example.com'', password = js ''secret''\<rparr>"

definition sample_services :: "outcome \<Rightarrow> bool \<Rightarrow> services" where
  "sample_services settles guardian =
     \<lparr>i18n_t = (\<lambda>key. key),
      authService_login = (\<lambda>formData. settles),
      authService_isGuardian = guardian\<rparr>"

definition response_with_user :: jsval where
  "response_with_user = JObj [(js ''user'', JObj [(js ''first_name'', JStr (js ''Asha''))])]"

definition response_without_user :: jsval where
  "response_without_user = JObj [(js ''access'', JStr (js ''token''))]"

definition response_with_unprintable_name :: jsval where
  "response_with_unprintable_name =
     JObj [(js ''user'', JObj [(js ''first_name'', JObj [(js ''toString'', JStr (js ''Asha''))])])]"

definition rejection_with_detail :: "jsval \<Rightarrow> thrown" where
  "rejection_with_detail detail =
     Thrown (JObj [(js ''response'', JObj [(js ''data'', JObj [(js ''detail'', detail)])])])"

definition browser_storing :: "jsstring option \<Rightarrow> browser" where
  "browser_storing saved =
     \<lparr>localStorage = (\<lambda>key. if key = js ''darkMode'' then saved else None), classList = []\<rparr>"


section \<open>Facts about the model\<close>

lemma JSON_parse_true: "JSON_parse (js ''true'') = Inr (JBool True)"
  by code_simp

lemma JSON_parse_false: "JSON_parse (js ''false'') = Inr (JBool False)"
  by code_simp

lemma JSON_stringify_boolean:
  "JSON_stringify (JBool b) = Some (js (if b then ''true'' else ''false''))"
  by (simp add: JSON_stringify_def)

lemma get_prop_nullish: "nullish v \<Longrightarrow> get_prop v p = Inl TypeError"
  by (cases v) simp_all

lemma get_prop_present: "\<not> nullish v \<Longrightarrow> get_prop v p = Inr (get_prop_opt v p)"
  by (cases v) (simp_all add: get_prop_opt_def)

lemma carries_user_response: "carries_user response \<Longrightarrow> \<not> nullish response"
  by (auto simp: carries_user_def get_prop_opt_def)

lemma try_block_reads:
  assumes "carries_user response"
  shows "try_block sv response =
           (case welcome_text sv (first_name_of response) of
              Inl e \<Rightarrow> ([], Some e)
            | Inr message \<Rightarrow>
                ([toast_success message,
                  if authService_isGuardian sv then navigate (js ''/guardian'')
                  else navigate (js ''/user'')], None))"
proof -
  have r: "get_prop response (js ''user'') = Inr (get_prop_opt response (js ''user''))"
    using assms by (simp add: carries_user_response get_prop_present)
  have u: "get_prop (get_prop_opt response (js ''user'')) (js ''first_name'')
             = Inr (first_name_of response)"
    using assms by (simp add: carries_user_def first_name_of_def get_prop_present)
  show ?thesis
    by (simp add: try_block_def r u)
qed

lemma try_block_with_user:
  assumes "carries_user response" and "ToString (first_name_of response) = Inr name"
  shows "try_block sv response =
           ([toast_success (i18n_t sv (js ''auth.welcomeBack'') @ js '', '' @ name @ js ''!''),
             if authService_isGuardian sv then navigate (js ''/guardian'')
             else navigate (js ''/user'')], None)"
  using assms by (simp add: try_block_reads welcome_text_def)

text \<open>
  A first name without a string makes the template literal throw, after both property
  reads have succeeded.
\<close>

lemma try_block_unprintable:
  assumes "carries_user response" and "ToString (first_name_of response) = Inl e"
  shows "try_block sv response = ([], Some e)"
  using assms by (simp add: try_block_reads welcome_text_def)

lemma ToString_primitive:
  "ToString JUndefined = Inr (js ''undefined'')"
  "ToString JNull = Inr (js ''null'')"
  "ToString (JBool b) = Inr (js (if b then ''true'' else ''false''))"
  "ToString (JNum n) = Inr (Number_toString n)"
  "ToString (JStr s) = Inr s"
  by simp_all

lemma ToString_object:
  "ToString (JObj ps) =
     (if js ''toString'' \<in> fst ` set ps then Inl TypeError else Inr (js ''[object Object]''))"
  by (simp add: map_of_eq_None_iff)

lemma try_block_without_user:
  assumes "\<not> carries_user response"
  shows "try_block sv response = ([], Some TypeError)"
proof (cases "nullish response")
  case True
  then show ?thesis by (simp add: try_block_def get_prop_nullish)
next
  case False
  then have r: "get_prop response (js ''user'') = Inr (get_prop_opt response (js ''user''))"
    by (simp add: get_prop_present)
  have "nullish (get_prop_opt response (js ''user''))"
    using assms by (simp add: carries_user_def)
  then show ?thesis
    by (simp add: try_block_def r get_prop_nullish)
qed

lemma catch_TypeError:
  "catch_block TypeError = ([toast_error (JStr (js ''Login failed''))], None)"
  by (simp add: catch_block_def notification_def get_prop_opt_def)

lemma catch_block_notifies:
  assumes "error \<noteq> Thrown JUndefined" and "error \<noteq> Thrown JNull"
  shows "catch_block error =
           ([toast_error (if ToBoolean (detail_of error) then detail_of error
                          else JStr (js ''Login failed''))], None)"
proof -
  have "\<exists>response. error_response error = Inr response"
  proof (cases error)
    case (Thrown v)
    with assms have "\<not> nullish v" by (cases v) auto
    with Thrown show ?thesis by (simp add: get_prop_present)
  qed simp_all
  then obtain response where r: "error_response error = Inr response" ..
  show ?thesis
    by (simp add: catch_block_def detail_of_def notification_def r Let_def)
qed

lemma catch_block_nullish:
  "catch_block (Thrown JUndefined) = ([], Some TypeError)"
  "catch_block (Thrown JNull) = ([], Some TypeError)"
  by (simp_all add: catch_block_def)

text \<open>
  An empty detail message is falsy, so \<open>||\<close> replaces it by the default text.
\<close>

lemma empty_detail_is_replaced:
  "catch_block (rejection_with_detail (JStr [])) =
     ([toast_error (JStr (js ''Login failed''))], None)"
  by (simp add: catch_block_def notification_def rejection_with_detail_def get_prop_opt_def)

lemma loading_after_finally: "loading_after loading (es @ [setLoading b]) = b"
  by (induction loading es rule: loading_after.induct) simp_all

lemma finally_runs: "\<exists>es. fst (try_catch_finally sv awaited) = es @ [setLoading False]"
  by (simp add: try_catch_finally_def split: prod.splits)

lemma no_navigation_and_error:
  "\<not> (list_ex is_navigate (fst (try_catch_finally sv awaited))
      \<and> list_ex is_toast_error (fst (try_catch_finally sv awaited)))"
proof (cases awaited)
  case (Inl error)
  then show ?thesis
    by (simp add: try_catch_finally_def catch_block_def split: sum.splits)
next
  case (Inr response)
  show ?thesis
  proof (cases "carries_user response")
    case False
    with Inr show ?thesis
      by (simp add: try_catch_finally_def try_block_without_user catch_TypeError)
  next
    case True
    show ?thesis
    proof (cases "ToString (first_name_of response)")
      case (Inl e)
      with Inr True show ?thesis
        by (simp add: try_catch_finally_def try_block_unprintable catch_block_def
            split: sum.splits)
    next
      case (Inr name)
      with \<open>awaited = Inr response\<close> True show ?thesis
        by (simp add: try_catch_finally_def try_block_with_user)
    qed
  qed
qed

lemma stored_after_effect:
  "localStorage (darkMode_effect d b) (js ''darkMode'') =
     Some (case JSON_stringify d of None \<Rightarrow> js ''undefined'' | Some s \<Rightarrow> s)"
  by (simp add: darkMode_effect_def setItem_def classList_add_def classList_remove_def Let_def)

lemma initial_darkMode_reload: "initial_darkMode (reload b) = initial_darkMode b"
  by (simp add: initial_darkMode_def reload_def)

lemma initial_darkMode_boolean_text:
  "localStorage b (js ''darkMode'') = Some (js (if v then ''true'' else ''false''))
     \<Longrightarrow> initial_darkMode b = Inr (JBool v)"
  by (cases v) (simp_all add: initial_darkMode_def JSON_parse_true JSON_parse_false, simp_all add: js_def)

section \<open>The route guard\<close>

text \<open>
  C1. At every render of a guarded route, \<open>/guardian\<close> or \<open>/user\<close>, the element is
  \<open>PrivateRoute\<close> around the page: when \<open>authService.isAuthenticated()\<close> returns false
  it renders the redirect to \<open>/login\<close> in place of its children, and when it returns
  true it renders the children unchanged. The guard is this one test: it renders one
  of the two and has no third, error outcome.
\<close>

theorem PrivateRoute_guards:
  "PrivateRoute False children = Navigate (js ''/login'')
   \<and> PrivateRoute True children = children
   \<and> PrivateRoute isAuthenticated children \<in> {children, Navigate (js ''/login'')}
   \<and> route_element isAuthenticated (js ''/guardian'')
        = Some (PrivateRoute isAuthenticated (Page GuardianHome))
   \<and> route_element isAuthenticated (js ''/user'')
        = Some (PrivateRoute isAuthenticated (Page UserHome))"
  by (simp add: PrivateRoute_def route_element_def Routes_def js_def)

text \<open>
  C6. The root route \<open>/\<close> renders the redirect to \<open>/login\<close>, whether or not the session
  is authenticated.
\<close>

theorem root_redirects_to_login:
  "route_element isAuthenticated (js ''/'') = Some (Navigate (js ''/login''))"
  by (simp add: route_element_def Routes_def js_def)

section \<open>The login handler\<close>

text \<open>
  C2, as amended. When the login call resolves with a response that carries a user
  (neither the response nor its \<open>user\<close> is \<open>undefined\<close> or \<open>null\<close>) whose \<open>first_name\<close>
  has a string (as every primitive has, and every plain object without an own
  \<open>toString\<close> property), the handler shows the success toast with that string and then
  navigates to the route of the role, \<open>/guardian\<close> when \<open>authService.isGuardian()\<close> is
  true and \<open>/user\<close> otherwise; then it resets the loading flag and returns normally.
\<close>

theorem login_success_navigates:
  assumes "authService_login sv formData = Fulfilled response"
    and "carries_user response"
    and "ToString (first_name_of response) = Inr name"
  shows "trace (handleSubmit sv formData) =
           [preventDefault, setLoading True, login_request formData,
            toast_success (i18n_t sv (js ''auth.welcomeBack'') @ js '', '' @ name @ js ''!''),
            navigate (if authService_isGuardian sv then js ''/guardian'' else js ''/user''),
            setLoading False]
         \<and> completion (handleSubmit sv formData) = Completed"
  using assms
  by (simp add: handleSubmit_def trace_def try_catch_finally_def try_block_with_user)

text \<open>
  The theorem of C2 at a login that resolves with \<open>{user: {first_name: "Asha"}}\<close> for a
  guardian.
\<close>

theorem login_success_navigates_witness:
  "authService_login (sample_services (Fulfilled response_with_user) True) sample_form
     = Fulfilled response_with_user
   \<and> carries_user response_with_user
   \<and> ToString (first_name_of response_with_user) = Inr (js ''Asha'')
   \<and> trace (handleSubmit (sample_services (Fulfilled response_with_user) True) sample_form) =
       [preventDefault, setLoading True, login_request sample_form,
        toast_success (js ''auth.welcomeBack, Asha!''),
        navigate (js ''/guardian''), setLoading False]"
proof -
  have l: "authService_login (sample_services (Fulfilled response_with_user) True) sample_form
             = Fulfilled response_with_user"
    by (simp add: sample_services_def)
  have c: "carries_user response_with_user"
    by (simp add: carries_user_def response_with_user_def get_prop_opt_def)
  have n: "ToString (first_name_of response_with_user) = Inr (js ''Asha'')"
    by (simp add: first_name_of_def response_with_user_def get_prop_opt_def)
  have w: "i18n_t (sample_services (Fulfilled response_with_user) True) (js ''auth.welcomeBack'')
             @ js '', '' @ js ''Asha'' @ js ''!'' = js ''auth.welcomeBack, Asha!''"
    by (simp add: sample_services_def js_def)
  from login_success_navigates [OF l c n]
  have "trace (handleSubmit (sample_services (Fulfilled response_with_user) True) sample_form) =
       [preventDefault, setLoading True, login_request sample_form,
        toast_success (js ''auth.welcomeBack, Asha!''),
        navigate (js ''/guardian''), setLoading False]"
    by (simp only: w) (simp add: sample_services_def)
  with l c n show ?thesis by blast
qed

text \<open>
  C2 as stated fails: a login that resolves with \<open>{access: "token"}\<close>, a response
  without a user, is followed by the error toast and by no navigation; and so is one
  that resolves with \<open>{user: {first_name: {toString: "Asha"}}}\<close>, whose first name has
  no string.
\<close>

theorem login_success_counterexample:
  "authService_login (sample_services (Fulfilled response_without_user) True) sample_form
     = Fulfilled response_without_user
   \<and> trace (handleSubmit (sample_services (Fulfilled response_without_user) True) sample_form) =
       [preventDefault, setLoading True, login_request sample_form,
        toast_error (JStr (js ''Login failed'')), setLoading False]
   \<and> trace (handleSubmit (sample_services (Fulfilled response_with_unprintable_name) True)
         sample_form) =
       [preventDefault, setLoading True, login_request sample_form,
        toast_error (JStr (js ''Login failed'')), setLoading False]"
proof -
  have a: "trace (handleSubmit (sample_services (Fulfilled response_without_user) True) sample_form) =
       [preventDefault, setLoading True, login_request sample_form,
        toast_error (JStr (js ''Login failed'')), setLoading False]"
    by (simp add: handleSubmit_def trace_def try_catch_finally_def try_block_def catch_TypeError
        sample_services_def response_without_user_def js_def)
  have c: "carries_user response_with_unprintable_name"
    by (simp add: carries_user_def response_with_unprintable_name_def get_prop_opt_def)
  have n: "ToString (first_name_of response_with_unprintable_name) = Inl TypeError"
    by (simp add: first_name_of_def response_with_unprintable_name_def get_prop_opt_def)
  have b: "trace (handleSubmit (sample_services (Fulfilled response_with_unprintable_name) True)
         sample_form) =
       [preventDefault, setLoading True, login_request sample_form,
        toast_error (JStr (js ''Login failed'')), setLoading False]"
    by (simp add: handleSubmit_def trace_def try_catch_finally_def
        try_block_unprintable [OF c n] catch_TypeError sample_services_def)
  from a b show ?thesis by (simp add: sample_services_def)
qed

text \<open>
  C3, as amended. When the login call rejects with anything but \<open>undefined\<close> or \<open>null\<close>,
  the handler shows exactly one error notification, the detail message
  \<open>error.response?.data?.detail\<close> when that is truthy and \<open>Login failed\<close> otherwise; it
  does not navigate, it has called \<open>authService.login\<close> exactly once, and it returns
  normally.
\<close>

theorem login_rejection_notifies:
  assumes "authService_login sv formData = Rejected error"
    and "error \<noteq> Thrown JUndefined" and "error \<noteq> Thrown JNull"
  shows "trace (handleSubmit sv formData) =
           [preventDefault, setLoading True, login_request formData,
            toast_error (if ToBoolean (detail_of error) then detail_of error
                         else JStr (js ''Login failed'')),
            setLoading False]
         \<and> length (filter is_toast_error (trace (handleSubmit sv formData))) = 1
         \<and> length (filter is_login_request (trace (handleSubmit sv formData))) = 1
         \<and> \<not> list_ex is_navigate (trace (handleSubmit sv formData))
         \<and> completion (handleSubmit sv formData) = Completed"
  using assms
  by (simp add: handleSubmit_def trace_def try_catch_finally_def catch_block_notifies)

text \<open>
  The theorem of C3 at a rejection whose \<open>response.data.detail\<close> is
  \<open>Invalid credentials\<close>.
\<close>

theorem login_rejection_notifies_witness:
  "authService_login
     (sample_services (Rejected (rejection_with_detail (JStr (js ''Invalid credentials'')))) False)
     sample_form = Rejected (rejection_with_detail (JStr (js ''Invalid credentials'')))
   \<and> rejection_with_detail (JStr (js ''Invalid credentials'')) \<noteq> Thrown JUndefined
   \<and> rejection_with_detail (JStr (js ''Invalid credentials'')) \<noteq> Thrown JNull
   \<and> trace (handleSubmit
            (sample_services (Rejected (rejection_with_detail (JStr (js ''Invalid credentials'')))) False)
            sample_form) =
     [preventDefault, setLoading True, login_request sample_form,
      toast_error (JStr (js ''Invalid credentials'')), setLoading False]"
proof -
  let ?e = "rejection_with_detail (JStr (js ''Invalid credentials''))"
  have l: "authService_login (sample_services (Rejected ?e) False) sample_form = Rejected ?e"
    by (simp add: sample_services_def)
  have u: "?e \<noteq> Thrown JUndefined" and n: "?e \<noteq> Thrown JNull"
    by (simp_all add: rejection_with_detail_def)
  have d: "detail_of ?e = JStr (js ''Invalid credentials'')"
    by (simp add: detail_of_def rejection_with_detail_def get_prop_opt_def)
  have t: "ToBoolean (JStr (js ''Invalid credentials''))"
    by (simp add: js_def)
  from login_rejection_notifies [OF l u n]
  have "trace (handleSubmit (sample_services (Rejected ?e) False) sample_form) =
     [preventDefault, setLoading True, login_request sample_form,
      toast_error (JStr (js ''Invalid credentials'')), setLoading False]"
    by (simp only: d t if_True)
  with l u n show ?thesis by blast
qed

text \<open>
  C3 as stated fails: when the login call rejects with \<open>undefined\<close>, the read
  \<open>error.response\<close> in the \<open>catch\<close> clause throws, no notification is shown, and the
  handler itself ends with that \<open>TypeError\<close>.
\<close>

theorem login_rejection_counterexample:
  "authService_login (sample_services (Rejected (Thrown JUndefined)) False) sample_form
     = Rejected (Thrown JUndefined)
   \<and> trace (handleSubmit (sample_services (Rejected (Thrown JUndefined)) False) sample_form) =
       [preventDefault, setLoading True, login_request sample_form, setLoading False]
   \<and> completion (handleSubmit (sample_services (Rejected (Thrown JUndefined)) False) sample_form)
       = Failed TypeError"
  by (simp add: handleSubmit_def trace_def try_catch_finally_def catch_block_nullish
      sample_services_def)

text \<open>
  C7, as amended. Before the login request completes the handler has done exactly
  \<open>e.preventDefault()\<close>, \<open>setLoading(true)\<close> and the call of \<open>authService.login\<close>: no
  navigation and no notification precedes the completion. Navigation and the error
  notification never both occur in one submission, and while the request has not
  completed nothing more happens.
\<close>

theorem handleSubmit_order:
  "before_await (handleSubmit sv formData) = [preventDefault, setLoading True, login_request formData]
   \<and> \<not> list_ex is_navigate (before_await (handleSubmit sv formData))
   \<and> \<not> list_ex is_toast (before_await (handleSubmit sv formData))
   \<and> \<not> (list_ex is_navigate (trace (handleSubmit sv formData))
        \<and> list_ex is_toast_error (trace (handleSubmit sv formData)))
   \<and> (authService_login sv formData = Pending \<longrightarrow> after_await (handleSubmit sv formData) = [])"
  using no_navigation_and_error [of sv]
  by (cases "authService_login sv formData")
     (simp_all add: handleSubmit_def trace_def)

text \<open>The theorem of C7 at a login request that never completes.\<close>

theorem handleSubmit_order_witness:
  "authService_login (sample_services Pending True) sample_form = Pending
   \<and> after_await (handleSubmit (sample_services Pending True) sample_form) = []
   \<and> before_await (handleSubmit (sample_services Pending True) sample_form) =
       [preventDefault, setLoading True, login_request sample_form]"
  using handleSubmit_order [of "sample_services Pending True" sample_form]
  by (simp add: sample_services_def)

text \<open>
  C7 as stated fails in its last part: effects do precede the completion of the
  request. With a request that never completes, the loading flag has been set all the
  same.
\<close>

theorem handleSubmit_order_counterexample:
  "authService_login (sample_services Pending True) sample_form = Pending
   \<and> setLoading True \<in> set (before_await (handleSubmit (sample_services Pending True) sample_form))
   \<and> trace (handleSubmit (sample_services Pending True) sample_form) =
       [preventDefault, setLoading True, login_request sample_form]"
  by (simp add: handleSubmit_def trace_def sample_services_def)

text \<open>
  C9. After every login submission whose request settles, whether it resolves, rejects,
  or the success branch or even the \<open>catch\<close> clause throws, the last effect is
  \<open>setLoading(false)\<close> and the loading flag is false, whatever it was before.
\<close>

theorem loading_is_reset:
  assumes "authService_login sv formData \<noteq> Pending"
  shows "loading_after loading (trace (handleSubmit sv formData)) = False
         \<and> last (trace (handleSubmit sv formData)) = setLoading False"
proof -
  obtain awaited where t: "trace (handleSubmit sv formData) =
      [preventDefault, setLoading True, login_request formData] @ fst (try_catch_finally sv awaited)"
    using assms
    by (cases "authService_login sv formData") (simp_all add: handleSubmit_def trace_def)
  obtain es where "fst (try_catch_finally sv awaited) = es @ [setLoading False]"
    using finally_runs by blast
  with t have "trace (handleSubmit sv formData) =
      ([preventDefault, setLoading True, login_request formData] @ es) @ [setLoading False]"
    by simp
  then show ?thesis
    by (simp only: loading_after_finally last_snoc simp_thms)
qed

text \<open>
  The theorem of C9 at a login that rejects with \<open>null\<close>, where the \<open>catch\<close> clause
  itself throws.
\<close>

theorem loading_is_reset_witness:
  "authService_login (sample_services (Rejected (Thrown JNull)) False) sample_form \<noteq> Pending
   \<and> loading_after True (trace (handleSubmit (sample_services (Rejected (Thrown JNull)) False) sample_form))
       = False
   \<and> completion (handleSubmit (sample_services (Rejected (Thrown JNull)) False) sample_form)
       = Failed TypeError"
proof -
  have p: "authService_login (sample_services (Rejected (Thrown JNull)) False) sample_form \<noteq> Pending"
    by (simp add: sample_services_def)
  have c: "completion (handleSubmit (sample_services (Rejected (Thrown JNull)) False) sample_form)
             = Failed TypeError"
    by (simp add: handleSubmit_def try_catch_finally_def catch_block_nullish sample_services_def)
  show ?thesis
    using loading_is_reset [OF p, of True] p c by simp
qed

text \<open>
  C10. The success branch reads \<open>response.user.first_name\<close> without a guard. For every
  response of a successful login that carries no user, the \<open>try\<close> block throws a
  \<open>TypeError\<close>, so the handler shows the error notification \<open>Login failed\<close> and does
  not navigate; a submission navigates only when the response carries a user.
\<close>

theorem missing_user_throws:
  assumes "authService_login sv formData = Fulfilled response"
  shows "(\<not> carries_user response \<longrightarrow>
            try_block sv response = ([], Some TypeError)
            \<and> trace (handleSubmit sv formData) =
                [preventDefault, setLoading True, login_request formData,
                 toast_error (JStr (js ''Login failed'')), setLoading False]
            \<and> completion (handleSubmit sv formData) = Completed)
         \<and> (list_ex is_navigate (trace (handleSubmit sv formData)) \<longrightarrow> carries_user response)"
  using assms
  by (cases "carries_user response")
     (simp_all add: handleSubmit_def trace_def try_catch_finally_def
        try_block_without_user catch_TypeError)

text \<open>The theorem of C10 at a login that resolves with \<open>{access: "token"}\<close>.\<close>

theorem missing_user_throws_witness:
  "authService_login (sample_services (Fulfilled response_without_user) True) sample_form
     = Fulfilled response_without_user
   \<and> \<not> carries_user response_without_user
   \<and> try_block (sample_services (Fulfilled response_without_user) True) response_without_user
       = ([], Some TypeError)
   \<and> \<not> list_ex is_navigate
         (trace (handleSubmit (sample_services (Fulfilled response_without_user) True) sample_form))"
proof -
  have l: "authService_login (sample_services (Fulfilled response_without_user) True) sample_form
             = Fulfilled response_without_user"
    by (simp add: sample_services_def)
  have c: "\<not> carries_user response_without_user"
    by (simp add: carries_user_def response_without_user_def get_prop_opt_def js_def)
  show ?thesis
    using missing_user_throws [OF l] l c by auto
qed

section \<open>The theme flag\<close>

lemma mount_boolean_text:
  assumes "localStorage b (js ''darkMode'') = Some (js (if v then ''true'' else ''false''))"
  shows "\<exists>s. mount b = Inr s \<and> in_step s v"
  using initial_darkMode_boolean_text [OF assms]
  by (simp add: mount_def in_step_def stored_after_effect JSON_stringify_boolean)

lemma mount_default:
  assumes "localStorage b (js ''darkMode'') = None \<or> localStorage b (js ''darkMode'') = Some []"
  shows "\<exists>s. mount b = Inr s \<and> in_step s True"
proof -
  from assms have "initial_darkMode b = Inr (JBool True)"
    by (auto simp: initial_darkMode_def)
  then show ?thesis
    by (simp add: mount_def in_step_def stored_after_effect JSON_stringify_boolean)
qed

lemma mount_initial: "mount b = Inr s \<Longrightarrow> initial_darkMode b = Inr (darkMode s)"
  by (cases "initial_darkMode b") (auto simp: mount_def)

lemma act_in_step:
  assumes "in_step s v"
  shows "\<exists>s'. act s a = Inr s' \<and> in_step s' (if a = Toggle then \<not> v else v)"
proof (cases a)
  case Toggle
  with assms show ?thesis
    by (simp add: in_step_def toggleTheme_def stored_after_effect JSON_stringify_boolean)
next
  case Reload
  from assms have "localStorage (reload (window s)) (js ''darkMode'')
      = Some (js (if v then ''true'' else ''false''))"
    by (simp add: in_step_def reload_def)
  from mount_boolean_text [OF this] Reload show ?thesis by simp
qed

lemma run_in_step:
  "in_step s v \<Longrightarrow> \<exists>s' v'. run (Inr s) actions = Inr s' \<and> in_step s' v'"
proof (induction actions arbitrary: s v)
  case Nil
  then show ?case by auto
next
  case (Cons a actions)
  from act_in_step [OF Cons.prems, of a]
  obtain s' where "act s a = Inr s'" and "in_step s' (if a = Toggle then \<not> v else v)"
    by blast
  with Cons.IH [of s'] show ?case by simp
qed

lemma toggle_then_reload:
  "map_sum id darkMode (run (Inr \<lparr>darkMode = JBool b, window = br\<rparr>) [Toggle, Reload])
     = Inr (JBool (\<not> b))"
proof -
  have w: "localStorage (darkMode_effect (JBool (\<not> b)) br) (js ''darkMode'')
             = Some (js (if \<not> b then ''true'' else ''false''))"
    by (simp only: stored_after_effect JSON_stringify_boolean option.case)
  have r: "initial_darkMode (reload (darkMode_effect (JBool (\<not> b)) br)) = Inr (JBool (\<not> b))"
    by (simp only: initial_darkMode_reload initial_darkMode_boolean_text [OF w])
  show ?thesis
    by (simp add: toggleTheme_def r mount_def)
qed

text \<open>
  C4. Toggling the theme and reloading restores the toggled value. For every boolean
  \<open>b\<close>, \<open>toggleTheme\<close> turns the state \<open>b\<close> into \<open>not b\<close>; the effect then stores under
  \<open>darkMode\<close> the JSON text of \<open>not b\<close>; and the initializer, run after a reload on
  that storage, yields \<open>not b\<close>: the App that toggles and reloads has the flag \<open>not b\<close>.
\<close>

theorem theme_round_trip:
  "toggleTheme (JBool b) = JBool (\<not> b)
   \<and> JSON_stringify (JBool (\<not> b)) = Some (js (if b then ''false'' else ''true''))
   \<and> localStorage (darkMode_effect (toggleTheme (JBool b)) br) (js ''darkMode'')
        = Some (js (if b then ''false'' else ''true''))
   \<and> initial_darkMode (reload (darkMode_effect (toggleTheme (JBool b)) br)) = Inr (JBool (\<not> b))
   \<and> map_sum id darkMode (run (Inr \<lparr>darkMode = JBool b, window = br\<rparr>) [Toggle, Reload])
        = Inr (JBool (\<not> b))"
proof -
  have t: "toggleTheme (JBool b) = JBool (\<not> b)"
    by (simp add: toggleTheme_def)
  have s: "JSON_stringify (JBool (\<not> b)) = Some (js (if \<not> b then ''true'' else ''false''))"
    by (rule JSON_stringify_boolean)
  have w: "localStorage (darkMode_effect (JBool (\<not> b)) br) (js ''darkMode'')
             = Some (js (if \<not> b then ''true'' else ''false''))"
    by (simp only: stored_after_effect s option.case)
  have r: "initial_darkMode (reload (darkMode_effect (JBool (\<not> b)) br)) = Inr (JBool (\<not> b))"
    by (simp only: initial_darkMode_reload initial_darkMode_boolean_text [OF w])
  have u: "map_sum id darkMode (run (Inr \<lparr>darkMode = JBool b, window = br\<rparr>) [Toggle, Reload])
        = Inr (JBool (\<not> b))"
    by (rule toggle_then_reload)
  from t s w r u show ?thesis by (cases b) simp_all
qed

text \<open>
  C5, as amended. When the string stored under \<open>darkMode\<close> is absent, empty, \<open>true\<close> or
  \<open>false\<close>, the initializer yields a boolean, and after the mount and any sequence of
  toggles and reloads the flag is a boolean and the effect has stored \<open>true\<close> or
  \<open>false\<close>, the JSON text of a boolean, under the key.
\<close>

theorem theme_flag_boolean:
  assumes "localStorage b (js ''darkMode'') \<in> {None, Some [], Some (js ''true''), Some (js ''false'')}"
  shows "is_boolean_result (initial_darkMode b)
         \<and> (\<exists>s. run (mount b) actions = Inr s
               \<and> is_boolean (darkMode s)
               \<and> localStorage (window s) (js ''darkMode'') \<in> {Some (js ''true''), Some (js ''false'')})"
proof -
  from assms have cases:
    "localStorage b (js ''darkMode'') = None
     \<or> localStorage b (js ''darkMode'') = Some []
     \<or> localStorage b (js ''darkMode'') = Some (js (if True then ''true'' else ''false''))
     \<or> localStorage b (js ''darkMode'') = Some (js (if False then ''true'' else ''false''))"
    by (simp only: insert_iff empty_iff if_True if_False) blast
  have "\<exists>s v. mount b = Inr s \<and> in_step s v"
    using cases
  proof (elim disjE)
    assume "localStorage b (js ''darkMode'') = None"
    then have "localStorage b (js ''darkMode'') = None \<or> localStorage b (js ''darkMode'') = Some []"
      by (rule disjI1)
    from mount_default [OF this] show ?thesis by blast
  next
    assume "localStorage b (js ''darkMode'') = Some []"
    then have "localStorage b (js ''darkMode'') = None \<or> localStorage b (js ''darkMode'') = Some []"
      by (rule disjI2)
    from mount_default [OF this] show ?thesis by blast
  next
    assume "localStorage b (js ''darkMode'') = Some (js (if True then ''true'' else ''false''))"
    from mount_boolean_text [OF this] show ?thesis by blast
  next
    assume "localStorage b (js ''darkMode'') = Some (js (if False then ''true'' else ''false''))"
    from mount_boolean_text [OF this] show ?thesis by blast
  qed
  then obtain s v where m: "mount b = Inr s" and i: "in_step s v"
    by blast
  from m have "initial_darkMode b = Inr (darkMode s)"
    by (rule mount_initial)
  with i have first: "is_boolean_result (initial_darkMode b)"
    by (simp add: in_step_def is_boolean_result_def is_boolean_def)
  from run_in_step [OF i, of actions]
  obtain s' v' where r: "run (Inr s) actions = Inr s'" and i': "in_step s' v'"
    by blast
  from i' have "is_boolean (darkMode s')"
    by (simp add: in_step_def is_boolean_def)
  moreover from i' have "localStorage (window s') (js ''darkMode'')
      \<in> {Some (js ''true''), Some (js ''false'')}"
    by (cases v') (simp_all add: in_step_def)
  ultimately have "\<exists>s. run (mount b) actions = Inr s
      \<and> is_boolean (darkMode s)
      \<and> localStorage (window s) (js ''darkMode'') \<in> {Some (js ''true''), Some (js ''false'')}"
    using r m by (simp only: ) blast
  with first show ?thesis by (rule conjI)
qed

text \<open>
  The theorem of C5 at a storage that holds \<open>false\<close>, for a toggle followed by a
  reload.
\<close>

theorem theme_flag_boolean_witness:
  "localStorage (browser_storing (Some (js ''false''))) (js ''darkMode'')
      \<in> {None, Some [], Some (js ''true''), Some (js ''false'')}
   \<and> initial_darkMode (browser_storing (Some (js ''false''))) = Inr (JBool False)
   \<and> map_sum id darkMode (run (mount (browser_storing (Some (js ''false'')))) [Toggle, Reload])
       = Inr (JBool True)"
proof -
  let ?br = "browser_storing (Some (js ''false''))"
  have s: "localStorage ?br (js ''darkMode'') = Some (js ''false'')"
    by (simp add: browser_storing_def)
  have i: "initial_darkMode ?br = Inr (JBool False)"
    using initial_darkMode_boolean_text [of ?br False] s by simp
  have m: "mount ?br = Inr \<lparr>darkMode = JBool False, window = darkMode_effect (JBool False) ?br\<rparr>"
    by (simp add: mount_def i)
  have r: "map_sum id darkMode
             (run (Inr \<lparr>darkMode = JBool False, window = darkMode_effect (JBool False) ?br\<rparr>)
                [Toggle, Reload]) = Inr (JBool (\<not> False))"
    by (rule toggle_then_reload)
  show ?thesis
    using theme_flag_boolean [of ?br "[Toggle, Reload]"] s i m r
    by simp
qed

text \<open>
  C5 as stated fails: on the stored string \<open>dark\<close>, which is not JSON, the initializer
  throws a \<open>SyntaxError\<close>; on the stored string \<open>null\<close> it yields \<open>null\<close>, and the effect
  then writes \<open>null\<close> back.
\<close>

theorem theme_flag_boolean_counterexample:
  "initial_darkMode (browser_storing (Some (js ''dark''))) = Inl SyntaxError
   \<and> initial_darkMode (browser_storing (Some (js ''null''))) = Inr JNull
   \<and> localStorage (darkMode_effect JNull (browser_storing (Some (js ''null'')))) (js ''darkMode'')
        = Some (js ''null'')"
proof -
  have d: "JSON_parse (js ''dark'') = Inl SyntaxError" by code_simp
  have n: "JSON_parse (js ''null'') = Inr JNull" by code_simp
  have e: "js ''dark'' \<noteq> []" "js ''null'' \<noteq> []" by (simp_all add: js_def)
  show ?thesis
    by (simp add: initial_darkMode_def browser_storing_def d n e stored_after_effect
        JSON_stringify_def)
qed

text \<open>
  C8. When nothing is stored under \<open>darkMode\<close>, or the stored string is empty, the
  initializer yields \<open>true\<close>: dark mode is the default theme.
\<close>

theorem dark_mode_is_default:
  assumes "localStorage br (js ''darkMode'') = None \<or> localStorage br (js ''darkMode'') = Some []"
  shows "initial_darkMode br = Inr (JBool True)"
  using assms by (auto simp: initial_darkMode_def)

text \<open>The theorem of C8 at a storage without the key, and at one that holds the empty string.\<close>

theorem dark_mode_is_default_witness:
  "localStorage (browser_storing None) (js ''darkMode'') = None
   \<and> initial_darkMode (browser_storing None) = Inr (JBool True)
   \<and> initial_darkMode (browser_storing (Some [])) = Inr (JBool True)"
  using dark_mode_is_default [of "browser_storing None"]
    dark_mode_is_default [of "browser_storing (Some [])"]
  by (simp add: browser_storing_def)

end
